theory Spec2Isabelle
  imports Complex_Main
begin

section \<open>Data model\<close>

text \<open>
  The pipeline passes articles around as Python dictionaries. The keys the modelled code
  reads or writes become the fields of a record; a key that may be missing is an
  \<open>option\<close>, and \<open>d.get(k, default)\<close> is \<open>dict_get\<close>. The values under these keys
  are \<open>str\<close> (or \<open>bool\<close> for \<open>extraction_successful\<close>), as the feed reader and the
  content extractor produce them. A string is the list of its characters, one \<open>char\<close>
  for each code point; a \<open>char\<close> has 256 values, so the strings of the model are the
  Python strings over the code points below 256.
  Floats are modelled as reals; no computation of the modelled code produces a NaN.
\<close>

datatype py_exception = Exception string
  \<comment> \<open>a raised exception, carrying \<open>str(e)\<close>\<close>

record article =
  source :: "string option"
  title :: "string option"
  link :: "string option"
  published :: "string option"
  summary :: "string option"
  categories :: "string list option"
  full_text :: "string option"
  extraction_successful :: "bool option"
  ai_summary :: "string option"

definition dict_get :: "'a option \<Rightarrow> 'a \<Rightarrow> 'a" where
  "dict_get v dflt = (case v of Some x \<Rightarrow> x | None \<Rightarrow> dflt)"

text \<open>
  \<open>str.lower()\<close> on one code point below 256: the capital letters, which are \<open>A\<close> to
  \<open>Z\<close> and the code points \<open>0xC0\<close> to \<open>0xDE\<close> without the multiplication sign
  \<open>0xD7\<close>, move up by 32 to their small letter; every other code point stays.
\<close>

definition lower_char :: "char \<Rightarrow> char" where
  "lower_char c =
     (let n = (of_char c :: nat)
      in if (65 \<le> n \<and> n \<le> 90) \<or> (192 \<le> n \<and> n \<le> 222 \<and> n \<noteq> 215)
         then char_of (n + 32) else c)"

definition py_lower :: "string \<Rightarrow> string" where
  "py_lower s = map lower_char s"

section \<open>deduplicator.py\<close>

subsection \<open>Comparison texts\<close>

text \<open>
  The body of the first loop of \<open>find_duplicates\<close>: the f-string
  \<open>"{title} {title} {text_content}"\<close>, lower-cased.
\<close>

definition combined_text :: "article \<Rightarrow> string" where
  "combined_text a =
     (let title' = dict_get (title a) '''';
          full_text' = dict_get (full_text a) '''';
          summary' = dict_get (ai_summary a) (dict_get (summary a) '''');
          text_content = (if full_text' \<noteq> '''' then full_text' else summary')
      in py_lower (title' @ '' '' @ title' @ '' '' @ text_content))"

definition comparison_texts :: "article list \<Rightarrow> string list" where
  "comparison_texts articles = foldl (\<lambda>acc a. acc @ [combined_text a]) [] articles"







subsection \<open>find_duplicates\<close>

record duplicate_pair =
  article1_idx :: nat
  article2_idx :: nat
  similarity_score :: real
  article1_title :: string
  article2_title :: string
  article1_source :: string
  article2_source :: string

record find_stats =
  total_articles :: nat
  duplicate_pairs_found :: nat
  n_articles_to_remove :: nat  \<comment> \<open>key \<open>articles_to_remove\<close> of \<open>stats\<close>\<close>
  find_error :: "string option"  \<comment> \<open>key \<open>error\<close>, present on the exception path only\<close>

record find_result =
  duplicate_pairs :: "duplicate_pair list"
  articles_to_remove :: "nat set"
  find_stats :: find_stats  \<comment> \<open>key \<open>stats\<close>\<close>

text \<open>
  The vectorizer and the cosine similarity come from scikit-learn. They are a parameter:
  a \<open>scorer\<close> maps the comparison texts to the similarity matrix (given by its entries),
  or raises.
\<close>

type_synonym scorer = "string list \<Rightarrow> py_exception + (nat \<Rightarrow> nat \<Rightarrow> real)"

text \<open>The body of the inner loop, on the pair list and the removal set.\<close>

definition pair_step ::
  "article list \<Rightarrow> (nat \<Rightarrow> nat \<Rightarrow> real) \<Rightarrow> real \<Rightarrow> nat \<Rightarrow>
     duplicate_pair list \<times> nat set \<Rightarrow> nat \<Rightarrow> duplicate_pair list \<times> nat set" where
  "pair_step articles cosine_sim similarity_threshold i st j =
     (let score = cosine_sim i j in
      if score > similarity_threshold then
        (let article1 = articles ! i;
             article2 = articles ! j;
             pair = \<lparr>article1_idx = i, article2_idx = j, similarity_score = score,
                     article1_title = dict_get (title article1) ''Unknown'',
                     article2_title = dict_get (title article2) ''Unknown'',
                     article1_source = dict_get (source article1) ''Unknown'',
                     article2_source = dict_get (source article2) ''Unknown''\<rparr>;
             content1_length = length (dict_get (full_text article1) '''');
             content2_length = length (dict_get (full_text article2) '''')
         in (fst st @ [pair],
             if content1_length \<ge> content2_length then insert j (snd st)
             else insert i (snd st)))
      else st)"

definition inner_loop ::
  "article list \<Rightarrow> (nat \<Rightarrow> nat \<Rightarrow> real) \<Rightarrow> real \<Rightarrow>
     duplicate_pair list \<times> nat set \<Rightarrow> nat \<Rightarrow> duplicate_pair list \<times> nat set" where
  "inner_loop articles cosine_sim similarity_threshold st i =
     foldl (pair_step articles cosine_sim similarity_threshold i) st
       [i + 1 ..< length articles]"

definition scan_pairs ::
  "article list \<Rightarrow> (nat \<Rightarrow> nat \<Rightarrow> real) \<Rightarrow> real \<Rightarrow> duplicate_pair list \<times> nat set" where
  "scan_pairs articles cosine_sim similarity_threshold =
     foldl (inner_loop articles cosine_sim similarity_threshold) ([], {})
       [0 ..< length articles]"

definition find_duplicates :: "scorer \<Rightarrow> article list \<Rightarrow> real \<Rightarrow> find_result" where
  "find_duplicates scorer articles similarity_threshold =
     (if length articles < 2 then
        \<lparr>duplicate_pairs = [], articles_to_remove = {},
         find_stats = \<lparr>total_articles = length articles, duplicate_pairs_found = 0,
                       n_articles_to_remove = 0, find_error = None\<rparr>\<rparr>
      else
        (case scorer (comparison_texts articles) of
           Inr cosine_sim \<Rightarrow>
             (let (pairs, to_remove) = scan_pairs articles cosine_sim similarity_threshold
              in \<lparr>duplicate_pairs = pairs, articles_to_remove = to_remove,
                  find_stats = \<lparr>total_articles = length articles,
                                duplicate_pairs_found = length pairs,
                                n_articles_to_remove = card to_remove,
                                find_error = None\<rparr>\<rparr>)
         | Inl (Exception msg) \<Rightarrow>
             \<lparr>duplicate_pairs = [], articles_to_remove = {},
              find_stats = \<lparr>total_articles = length articles, duplicate_pairs_found = 0,
                            n_articles_to_remove = 0, find_error = Some msg\<rparr>\<rparr>))"

subsection \<open>remove_duplicates\<close>

record removed_article = article +
  removal_reason :: string
  original_index :: nat

record dedup_stats =
  original_count :: nat
  final_count :: nat
  dedup_duplicates_removed :: int  \<comment> \<open>key \<open>duplicates_removed\<close>\<close>
  dedup_pairs_found :: "nat option"  \<comment> \<open>key \<open>duplicate_pairs_found\<close>, absent for an empty batch\<close>

record dedup_result =
  dedup_articles :: "article list"  \<comment> \<open>key \<open>articles\<close>\<close>
  removed_articles :: "removed_article list"
  deduplication_stats :: dedup_stats
  dedup_pairs :: "duplicate_pair list option"  \<comment> \<open>key \<open>duplicate_pairs\<close>, absent for an empty batch\<close>

definition mark_removed :: "nat \<Rightarrow> article \<Rightarrow> removed_article" where
  "mark_removed i a =
     article.extend a (removed_article.fields ''duplicate_content'' i)"

text \<open>The body of the loop over \<open>enumerate(articles)\<close>.\<close>

definition split_step ::
  "nat set \<Rightarrow> article list \<times> removed_article list \<Rightarrow> nat \<times> article \<Rightarrow>
     article list \<times> removed_article list" where
  "split_step to_remove st ia =
     (if fst ia \<in> to_remove then (fst st, snd st @ [mark_removed (fst ia) (snd ia)])
      else (fst st @ [snd ia], snd st))"

definition remove_duplicates :: "scorer \<Rightarrow> article list \<Rightarrow> real \<Rightarrow> dedup_result" where
  "remove_duplicates scorer articles similarity_threshold =
     (if articles = [] then
        \<lparr>dedup_articles = [], removed_articles = [],
         deduplication_stats = \<lparr>original_count = 0, final_count = 0,
                                dedup_duplicates_removed = 0, dedup_pairs_found = None\<rparr>,
         dedup_pairs = None\<rparr>
      else
        (let original = length articles;
             duplicate_info = find_duplicates scorer articles similarity_threshold;
             to_remove = articles_to_remove duplicate_info;
             (deduplicated, removed) =
                foldl (split_step to_remove) ([], []) (enumerate 0 articles);
             final = length deduplicated;
             n_removed = int original - int final
         in \<lparr>dedup_articles = deduplicated, removed_articles = removed,
             deduplication_stats =
               \<lparr>original_count = original, final_count = final,
                dedup_duplicates_removed = n_removed,
                dedup_pairs_found = Some (length (duplicate_pairs duplicate_info))\<rparr>,
             dedup_pairs = Some (duplicate_pairs duplicate_info)\<rparr>))"

section \<open>External collaborators\<close>

text \<open>
  Everything the pipeline calls outside the modelled modules is a field of the environment
  of one run: what the call returns, or the exception it raises.
\<close>

record cloud_result =
  cloud_success :: bool  \<comment> \<open>key \<open>success\<close>\<close>
  public_url :: "string option"
  cloud_filename :: "string option"

record podcast_result =
  podcast_success :: bool  \<comment> \<open>key \<open>success\<close>\<close>
  local_file :: "string option"
  duration_minutes :: "real option"
  file_size_mb :: "real option"
  cloud_storage :: "cloud_result option"

record telegram_result =
  podcast_sent :: bool
  text_sent :: bool
  primary_method :: string
  telegram_error :: "string option"  \<comment> \<open>key \<open>error\<close>\<close>

record env =
  fetch_all_sources :: "py_exception + article list"
    \<comment> \<open>\<open>fetch_all_sources(self.config.load_rss_sources())\<close>\<close>
  extract_content_batch :: "article list \<Rightarrow> py_exception + article list"
  DUPLICATE_THRESHOLD :: real
  tfidf_cosine :: scorer
  api_available :: bool
  chat_completion :: "string \<Rightarrow> py_exception + string"
    \<comment> \<open>the request for a prompt: the content of the first choice, or an exception\<close>
  generate_meta_summary :: "article list \<Rightarrow> py_exception + string"
  today :: string  \<comment> \<open>\<open>datetime.now().strftime('%B %d, %Y')\<close>\<close>
  tts_generate_podcast :: "string \<Rightarrow> py_exception + podcast_result option"
  send_daily_podcast :: "string \<Rightarrow> string \<Rightarrow> py_exception + telegram_result"
  send_text_summary_sync :: "string \<Rightarrow> py_exception + bool"
    \<comment> \<open>the \<open>success\<close> flag of the text delivery\<close>
  utcnow_start :: real
  utcnow_end :: real

section \<open>ai_summarizer.py\<close>

text \<open>The code points below 256 that \<open>str.strip()\<close> takes for whitespace.\<close>

definition is_space :: "char \<Rightarrow> bool" where
  "is_space c =
     (let n = (of_char c :: nat)
      in (9 \<le> n \<and> n \<le> 13) \<or> (28 \<le> n \<and> n \<le> 32) \<or> n = 133 \<or> n = 160)"

definition py_strip :: "string \<Rightarrow> string" where
  "py_strip s = rev (dropWhile is_space (rev (dropWhile is_space s)))"

fun starts_with :: "string \<Rightarrow> string \<Rightarrow> bool" where
  "starts_with [] s = True"
| "starts_with (p # ps) [] = False"
| "starts_with (p # ps) (c # cs) = (p = c \<and> starts_with ps cs)"

text \<open>\<open>py_in needle s\<close> is Python's \<open>needle in s\<close> on strings.\<close>

fun py_in :: "string \<Rightarrow> string \<Rightarrow> bool" where
  "py_in needle [] = (needle = [])"
| "py_in needle (c # cs) = (starts_with needle (c # cs) \<or> py_in needle cs)"

text \<open>\<open>split_sentences [] text\<close> is \<open>text.split('. ')\<close>.\<close>

fun split_sentences :: "string \<Rightarrow> string \<Rightarrow> string list" where
  "split_sentences cur [] = [cur]"
| "split_sentences cur [c] = [cur @ [c]]"
| "split_sentences cur (c # d # rest) =
     (if c = CHR ''.'' \<and> d = CHR '' '' then cur # split_sentences [] rest
      else split_sentences (cur @ [c]) (d # rest))"

text \<open>The loop over \<open>sentences[:5]\<close>, with its \<open>break\<close>.\<close>

fun take_sentences :: "string list \<Rightarrow> nat \<Rightarrow> string list \<Rightarrow> string list" where
  "take_sentences summary_parts char_count [] = summary_parts"
| "take_sentences summary_parts char_count (sentence # rest) =
     (if char_count + length sentence > 200 then summary_parts
      else take_sentences (summary_parts @ [py_strip sentence])
             (char_count + length sentence) rest)"

fun py_join :: "string \<Rightarrow> string list \<Rightarrow> string" where
  "py_join sep [] = []"
| "py_join sep [x] = x"
| "py_join sep (x # y # ys) = x @ sep @ py_join sep (y # ys)"

definition fallback_marker :: string where
  "fallback_marker = '' [Extractive summary - AI summarization unavailable]''"

definition fallback_summary :: "string \<Rightarrow> string" where
  "fallback_summary text =
     (let sentences = split_sentences [] text;
          summary_parts = take_sentences [] 0 (take 5 sentences);
          joined = py_join ''. '' summary_parts;
          dotted = (if joined \<noteq> [] \<and> last joined = CHR ''.'' then joined
                    else joined @ ''.'')
      in dotted @ fallback_marker)"

definition summarize_prompt :: "string \<Rightarrow> string" where
  "summarize_prompt text =
     ''Summarize the following news article in 1-2 sentences. '' @
     ''Focus on the key facts and main points:'' @ [CHR 0x0A, CHR 0x0A] @ text"

definition summarize :: "env \<Rightarrow> string \<Rightarrow> string" where
  "summarize env text =
     (if \<not> api_available env then fallback_summary text
      else (case chat_completion env (summarize_prompt text) of
              Inr content \<Rightarrow> py_strip content
            | Inl e \<Rightarrow> fallback_summary text))"

definition summarize_article :: "env \<Rightarrow> article \<Rightarrow> article" where
  "summarize_article env a =
     (let full_text' = dict_get (full_text a) '''';
          summary' = (if full_text' \<noteq> '''' then summarize env full_text'
                      else dict_get (summary a) ''No content available for summarization'')
      in a\<lparr>ai_summary := Some summary'\<rparr>)"

definition process_article_summaries :: "env \<Rightarrow> article list \<Rightarrow> article list" where
  "process_article_summaries env articles = map (summarize_article env) articles"

text \<open>
  Which path an article takes through \<open>process_article_summaries\<close>: the primary (AI)
  summary is used when there is full text, the client is available and the request
  returns; it has failed when there is full text and the extractive fallback is taken.
\<close>

definition primary_succeeded :: "env \<Rightarrow> article \<Rightarrow> bool" where
  "primary_succeeded env a =
     (let full_text' = dict_get (full_text a) ''''
      in full_text' \<noteq> '''' \<and> api_available env \<and>
         (case chat_completion env (summarize_prompt full_text') of
            Inr content \<Rightarrow> True | Inl e \<Rightarrow> False))"

definition primary_failed :: "env \<Rightarrow> article \<Rightarrow> bool" where
  "primary_failed env a =
     (dict_get (full_text a) '''' \<noteq> '''' \<and> \<not> primary_succeeded env a)"

section \<open>news_pipeline.py\<close>

subsection \<open>State of a NewsProcessor\<close>

record run_stats =
  start_time :: "real option"
  end_time :: "real option"
  processing_duration :: real
  articles_fetched :: nat
  articles_with_content :: nat
  articles_after_deduplication :: nat
  duplicates_removed :: int
  ai_summaries_generated :: nat
  podcast_created :: bool
  telegram_sent :: bool
  errors :: "string list"

datatype stage = Fetch | Extract | Deduplicate | Summarize | MetaSummarize | Podcast | Telegram

text \<open>
  \<open>stats\<close> is \<open>self.stats\<close>. \<open>entered\<close> lists the stage methods entered so far, in order:
  each of them logs one line on entry, and this is the list of those lines.
\<close>

record processor =
  stats :: run_stats
  entered :: "stage list"

definition NewsProcessor :: processor where
  "NewsProcessor =
     \<lparr>stats = \<lparr>start_time = None, end_time = None, processing_duration = 0,
               articles_fetched = 0, articles_with_content = 0,
               articles_after_deduplication = 0, duplicates_removed = 0,
               ai_summaries_generated = 0, podcast_created = False,
               telegram_sent = False, errors = []\<rparr>,
      entered = []\<rparr>"

definition enter :: "stage \<Rightarrow> processor \<Rightarrow> processor" where
  "enter s p = p\<lparr>entered := entered p @ [s]\<rparr>"

definition add_error :: "string \<Rightarrow> processor \<Rightarrow> processor" where
  "add_error error_msg p = p\<lparr>stats := (stats p)\<lparr>errors := errors (stats p) @ [error_msg]\<rparr>\<rparr>"

record podcast_info =
  info_local_file :: "string option"
  info_duration_minutes :: "real option"
  info_file_size_mb :: "real option"
  cloud_url :: "string option"
  info_cloud_filename :: "string option"

text \<open>
  The dictionary a run returns. The keys that only one of the two finishing methods
  writes are options; \<open>podcast\<close> with every field \<open>None\<close> is the empty dictionary.
\<close>

record run_result =
  status :: string
  timestamp :: real
  error :: "string option"
  processing_duration_seconds :: real
  articles_processed :: "nat option"
  meta_summary :: "string option"
  podcast :: "podcast_info option"
  telegram_result :: "telegram_result option"
  statistics :: run_stats

subsection \<open>Stages\<close>

definition fetch_articles :: "env \<Rightarrow> processor \<Rightarrow> article list \<times> processor" where
  "fetch_articles env p0 =
     (let p = enter Fetch p0 in
      case fetch_all_sources env of
        Inr articles \<Rightarrow>
          (articles, p\<lparr>stats := (stats p)\<lparr>articles_fetched := length articles\<rparr>\<rparr>)
      | Inl (Exception msg) \<Rightarrow> ([], add_error (''RSS fetching failed: '' @ msg) p))"

definition extract_content ::
  "env \<Rightarrow> article list \<Rightarrow> processor \<Rightarrow> article list \<times> processor" where
  "extract_content env articles p0 =
     (let p = enter Extract p0 in
      case extract_content_batch env articles of
        Inr articles_with_content' \<Rightarrow>
          (let successful =
                 length (filter (\<lambda>a. dict_get (extraction_successful a) False)
                           articles_with_content')
           in (articles_with_content',
               p\<lparr>stats := (stats p)\<lparr>articles_with_content := successful\<rparr>\<rparr>))
      | Inl (Exception msg) \<Rightarrow>
          (articles, add_error (''Content extraction failed: '' @ msg) p))"

text \<open>
  \<open>remove_duplicates\<close> raises nothing (\<open>find_duplicates\<close> catches what the scorer
  raises), so the handler of \<open>_deduplicate_articles\<close> has no branch here.
\<close>

definition deduplicate_articles ::
  "env \<Rightarrow> article list \<Rightarrow> processor \<Rightarrow> dedup_result \<times> processor" where
  "deduplicate_articles env articles p0 =
     (let p = enter Deduplicate p0;
          dedup_result = remove_duplicates (tfidf_cosine env) articles (DUPLICATE_THRESHOLD env)
      in (dedup_result,
          p\<lparr>stats := (stats p)
               \<lparr>articles_after_deduplication := length (dedup_articles dedup_result),
                duplicates_removed :=
                  dedup_duplicates_removed (deduplication_stats dedup_result)\<rparr>\<rparr>))"

definition counts_as_ai_summary :: "article \<Rightarrow> bool" where
  "counts_as_ai_summary a =
     (py_strip (dict_get (ai_summary a) '''') \<noteq> '''' \<and>
      \<not> py_in ''AI summarization unavailable'' (dict_get (ai_summary a) ''''))"

text \<open>
  \<open>process_article_summaries\<close> raises nothing (\<open>summarize\<close> catches what the request
  raises), so the handler of \<open>_generate_summaries\<close> has no branch here.
\<close>

definition generate_summaries ::
  "env \<Rightarrow> article list \<Rightarrow> processor \<Rightarrow> article list \<times> processor" where
  "generate_summaries env articles p0 =
     (let p = enter Summarize p0;
          articles_with_summaries = process_article_summaries env articles;
          ai_summaries = length (filter counts_as_ai_summary articles_with_summaries)
      in (articles_with_summaries,
          p\<lparr>stats := (stats p)\<lparr>ai_summaries_generated := ai_summaries\<rparr>\<rparr>))"

text \<open>The number the stage logs as "fallback summaries".\<close>

definition fallback_summaries_logged :: "env \<Rightarrow> article list \<Rightarrow> processor \<Rightarrow> int" where
  "fallback_summaries_logged env articles p0 =
     (case generate_summaries env articles p0 of
        (articles_with_summaries, p) \<Rightarrow>
          int (length articles_with_summaries) - int (ai_summaries_generated (stats p)))"

fun show_nat :: "nat \<Rightarrow> string" where
  "show_nat n =
     (if n < 10 then [char_of (48 + n)]
      else show_nat (n div 10) @ [char_of (48 + n mod 10)])"

definition create_meta_summary ::
  "env \<Rightarrow> article list \<Rightarrow> processor \<Rightarrow> string \<times> processor" where
  "create_meta_summary env articles p0 =
     (let p = enter MetaSummarize p0 in
      case generate_meta_summary env articles of
        Inr meta_summary' \<Rightarrow> (meta_summary', p)
      | Inl (Exception msg) \<Rightarrow>
          (''Daily news summary for '' @ today env @ '' - '' @ show_nat (length articles)
             @ '' articles processed.'',
           add_error (''Meta-summary creation failed: '' @ msg) p))"

text \<open>\<open>str(KeyError(k))\<close> is the key in single quotes.\<close>

definition key_error :: "string \<Rightarrow> py_exception" where
  "key_error k = Exception ([CHR 0x27] @ k @ [CHR 0x27])"

text \<open>
  The body of the \<open>try\<close> of \<open>_generate_podcast\<close>. The two log lines index the result
  with \<open>['local_file']\<close> and \<open>['public_url']\<close>, after \<open>podcast_created\<close> is set.
\<close>

definition generate_podcast ::
  "env \<Rightarrow> string \<Rightarrow> processor \<Rightarrow> podcast_result option \<times> processor" where
  "generate_podcast env meta_summary' p0 =
     (let p = enter Podcast p0;
          failed = (\<lambda>e q. case e of Exception msg \<Rightarrow>
                      (None, add_error (''Podcast generation failed: '' @ msg) q))
      in case tts_generate_podcast env meta_summary' of
           Inl e \<Rightarrow> failed e p
         | Inr None \<Rightarrow> (None, add_error ''Podcast generation failed'' p)
         | Inr (Some r) \<Rightarrow>
             (if podcast_success r then
                (let p1 = p\<lparr>stats := (stats p)\<lparr>podcast_created := True\<rparr>\<rparr> in
                 case local_file r of
                   None \<Rightarrow> failed (key_error ''local_file'') p1
                 | Some f \<Rightarrow>
                     (case cloud_storage r of
                        None \<Rightarrow> (Some r, p1)
                      | Some c \<Rightarrow>
                          (if cloud_success c then
                             (case public_url c of
                                None \<Rightarrow> failed (key_error ''public_url'') p1
                              | Some url \<Rightarrow> (Some r, p1))
                           else (Some r, p1))))
              else (Some r, add_error ''Podcast generation failed'' p)))"

text \<open>The body of the \<open>try\<close> of \<open>_send_telegram\<close>, up to the delivery result.\<close>

definition deliver ::
  "env \<Rightarrow> podcast_result option \<Rightarrow> string \<Rightarrow> py_exception + telegram_result" where
  "deliver env podcast_result' meta_summary' =
     (let send_file = (\<lambda>r. case local_file r of
                          None \<Rightarrow> Inl (key_error ''local_file'')
                        | Some f \<Rightarrow> send_daily_podcast env f meta_summary');
          text_only =
            (case send_text_summary_sync env meta_summary' of
               Inl e \<Rightarrow> Inl e
             | Inr ok \<Rightarrow>
                 Inr \<lparr>podcast_sent = False, text_sent = ok,
                      primary_method = (if ok then ''text'' else ''failed''),
                      telegram_error = None\<rparr>)
      in case podcast_result' of
           None \<Rightarrow> text_only
         | Some r \<Rightarrow>
             (if podcast_success r then
                (case cloud_storage r of
                   None \<Rightarrow> send_file r
                 | Some c \<Rightarrow>
                     (if cloud_success c then
                        (case public_url c of
                           None \<Rightarrow> Inl (key_error ''public_url'')
                         | Some podcast_url \<Rightarrow> send_file r)
                      else send_file r))
              else text_only))"

definition send_telegram ::
  "env \<Rightarrow> podcast_result option \<Rightarrow> string \<Rightarrow> processor \<Rightarrow> telegram_result \<times> processor" where
  "send_telegram env podcast_result' meta_summary' p0 =
     (let p = enter Telegram p0 in
      case deliver env podcast_result' meta_summary' of
        Inr telegram_result' \<Rightarrow>
          (telegram_result',
           if podcast_sent telegram_result' \<or> text_sent telegram_result'
           then p\<lparr>stats := (stats p)\<lparr>telegram_sent := True\<rparr>\<rparr> else p)
      | Inl (Exception msg) \<Rightarrow>
          (\<lparr>podcast_sent = False, text_sent = False, primary_method = ''failed'',
            telegram_error = Some msg\<rparr>,
           add_error (''Telegram sending failed: '' @ msg) p))"

subsection \<open>Finishing\<close>

definition podcast_info_of :: "podcast_result option \<Rightarrow> podcast_info" where
  "podcast_info_of podcast_result' =
     (let empty = \<lparr>info_local_file = None, info_duration_minutes = None,
                   info_file_size_mb = None, cloud_url = None, info_cloud_filename = None\<rparr>
      in case podcast_result' of
           None \<Rightarrow> empty
         | Some r \<Rightarrow>
             (if podcast_success r then
                (let info = \<lparr>info_local_file = local_file r,
                             info_duration_minutes = duration_minutes r,
                             info_file_size_mb = file_size_mb r,
                             cloud_url = None, info_cloud_filename = None\<rparr>
                 in case cloud_storage r of
                      None \<Rightarrow> info
                    | Some c \<Rightarrow>
                        (if cloud_success c
                         then info\<lparr>cloud_url := public_url c,
                                   info_cloud_filename := cloud_filename c\<rparr>
                         else info))
              else empty))"

text \<open>
  \<open>_finish_successfully\<close> subtracts \<open>start_time\<close> from \<open>end_time\<close>; with no start time
  that raises, and the handler of \<open>run_daily_pipeline\<close> takes over.
\<close>

definition finish_successfully ::
  "env \<Rightarrow> article list \<Rightarrow> string \<Rightarrow> podcast_result option \<Rightarrow> telegram_result \<Rightarrow>
     processor \<Rightarrow> py_exception \<times> processor + run_result \<times> processor" where
  "finish_successfully env articles meta_summary' podcast_result' telegram_result' p0 =
     (let p = p0\<lparr>stats := (stats p0)\<lparr>end_time := Some (utcnow_end env)\<rparr>\<rparr> in
      case start_time (stats p) of
        None \<Rightarrow>
          Inl (Exception (''unsupported operand type(s) for -: '' @ [CHR 0x27] @
                 ''datetime.datetime'' @ [CHR 0x27] @ '' and '' @ [CHR 0x27] @ ''NoneType'' @
                 [CHR 0x27]), p)
      | Some t0 \<Rightarrow>
          (let p1 = p\<lparr>stats := (stats p)\<lparr>processing_duration := utcnow_end env - t0\<rparr>\<rparr>
           in Inr (\<lparr>status = ''success'', timestamp = utcnow_end env, error = None,
                    processing_duration_seconds = processing_duration (stats p1),
                    articles_processed = Some (length articles),
                    meta_summary = Some meta_summary',
                    podcast = Some (podcast_info_of podcast_result'),
                    telegram_result = Some telegram_result',
                    statistics = stats p1\<rparr>, p1)))"

definition finish_with_error :: "env \<Rightarrow> string \<Rightarrow> processor \<Rightarrow> run_result \<times> processor" where
  "finish_with_error env error_message p0 =
     (let p = p0\<lparr>stats := (stats p0)\<lparr>end_time := Some (utcnow_end env)\<rparr>\<rparr>;
          p1 = (case start_time (stats p) of
                  Some t0 \<Rightarrow>
                    p\<lparr>stats := (stats p)\<lparr>processing_duration := utcnow_end env - t0\<rparr>\<rparr>
                | None \<Rightarrow> p);
          p2 = add_error error_message p1
      in (\<lparr>status = ''error'', timestamp = utcnow_end env, error = Some error_message,
           processing_duration_seconds = processing_duration (stats p2),
           articles_processed = None, meta_summary = None, podcast = None,
           telegram_result = None, statistics = stats p2\<rparr>, p2))"

subsection \<open>run_daily_pipeline\<close>

text \<open>The method \<open>NewsProcessor.run_daily_pipeline\<close>, on the state of its processor.\<close>

definition NewsProcessor_run_daily_pipeline ::
  "env \<Rightarrow> processor \<Rightarrow> run_result \<times> processor" where
  "NewsProcessor_run_daily_pipeline env p0 =
     (let p = p0\<lparr>stats := (stats p0)\<lparr>start_time := Some (utcnow_start env)\<rparr>\<rparr> in
      case fetch_articles env p of (articles, p1) \<Rightarrow>
        if articles = [] then finish_with_error env ''No articles fetched from RSS feeds'' p1
        else
          (case extract_content env articles p1 of (articles2, p2) \<Rightarrow>
            (case deduplicate_articles env articles2 p2 of (dedup_result, p3) \<Rightarrow>
              (let articles3 = dedup_articles dedup_result in
               if articles3 = [] then
                 finish_with_error env ''No articles remaining after deduplication'' p3
               else
                 (case generate_summaries env articles3 p3 of (articles4, p4) \<Rightarrow>
                   (case create_meta_summary env articles4 p4 of (meta_summary', p5) \<Rightarrow>
                     (case generate_podcast env meta_summary' p5 of (podcast_result', p6) \<Rightarrow>
                       (case send_telegram env podcast_result' meta_summary' p6 of
                          (telegram_result', p7) \<Rightarrow>
                            (case finish_successfully env articles4 meta_summary'
                                    podcast_result' telegram_result' p7 of
                               Inr finished \<Rightarrow> finished
                             | Inl (Exception msg, p8) \<Rightarrow>
                                 finish_with_error env (''Pipeline exception: '' @ msg)
                                   p8)))))))))"

text \<open>
  The module's entry point builds a fresh processor and returns the result of its run;
  \<open>stages_entered\<close> is the list of stages that run went through.
\<close>

definition run_daily_pipeline :: "env \<Rightarrow> run_result" where
  "run_daily_pipeline env = fst (NewsProcessor_run_daily_pipeline env NewsProcessor)"

definition stages_entered :: "env \<Rightarrow> stage list" where
  "stages_entered env = entered (snd (NewsProcessor_run_daily_pipeline env NewsProcessor))"

section \<open>Notions used in the statements\<close>

text \<open>\<open>len(article.get('full_text', ''))\<close>, the length the resolver compares.\<close>

definition content_length :: "article \<Rightarrow> nat" where
  "content_length a = length (dict_get (full_text a) '''')"

text \<open>The index a pair decision puts into the removal set.\<close>

definition loser :: "article list \<Rightarrow> nat \<Rightarrow> nat \<Rightarrow> nat" where
  "loser articles i j =
     (if content_length (articles ! i) \<ge> content_length (articles ! j) then j else i)"

text \<open>
  \<open>first_longest articles m\<close>: \<open>m\<close> is the lowest index among the articles of maximal
  content length.
\<close>

definition first_longest :: "article list \<Rightarrow> nat \<Rightarrow> bool" where
  "first_longest articles m =
     (m < length articles \<and>
      list_all (\<lambda>k. content_length (articles ! k) \<le> content_length (articles ! m))
        [0 ..< length articles] \<and>
      list_all (\<lambda>k. content_length (articles ! k) < content_length (articles ! m)) [0 ..< m])"

text \<open>
  The batches a run of the entry point sees: after fetching, after extraction and after
  deduplication. None of them depends on the statistics gathered so far.
\<close>

definition batch_fetched :: "env \<Rightarrow> article list" where
  "batch_fetched env = fst (fetch_articles env NewsProcessor)"

definition batch_extracted :: "env \<Rightarrow> article list" where
  "batch_extracted env = fst (extract_content env (batch_fetched env) NewsProcessor)"

definition batch_deduplicated :: "env \<Rightarrow> article list" where
  "batch_deduplicated env =
     dedup_articles (fst (deduplicate_articles env (batch_extracted env) NewsProcessor))"

section \<open>Example inputs\<close>

text \<open>An item as the feed reader builds it, and the merge the content extractor does.\<close>

definition feed_item :: "string \<Rightarrow> string \<Rightarrow> article" where
  "feed_item t s =
     \<lparr>source = Some ''feed'', title = Some t, link = Some ''http://example.org/a'',
      published = Some '''', summary = Some s, categories = Some [],
      full_text = None, extraction_successful = None, ai_summary = None\<rparr>"

definition with_text :: "string \<Rightarrow> article \<Rightarrow> article" where
  "with_text t a = a\<lparr>full_text := Some t, extraction_successful := Some (t \<noteq> '''')\<rparr>"

definition three_articles :: "article list" where
  "three_articles =
     [with_text ''ab'' (feed_item ''Rates'' ''r''),
      with_text ''abcd'' (feed_item ''Rates'' ''r''),
      with_text ''wxyz'' (feed_item ''Rates'' ''r'')]"




text \<open>Two articles whose extraction failed; the second has no feed summary either.\<close>

definition unextracted_articles :: "article list" where
  "unextracted_articles =
     [with_text '''' (feed_item ''Markets'' ''Markets rose today''),
      with_text '''' (feed_item ''Empty'' '''')]"

text \<open>A scorer that finds every pair similar.\<close>

definition all_similar :: scorer where
  "all_similar texts = Inr (\<lambda>i j. 9 / 10)"

text \<open>
  A run with nothing configured: every extraction fails, no article resembles another,
  there is no AI client, no audio and no Telegram.
\<close>

definition offline_env :: "article list \<Rightarrow> env" where
  "offline_env fetched =
     \<lparr>fetch_all_sources = Inr fetched,
      extract_content_batch = (\<lambda>as. Inr (map (with_text '''') as)),
      DUPLICATE_THRESHOLD = 8 / 10,
      tfidf_cosine = (\<lambda>texts. Inr (\<lambda>i j. if i = j then 1 else 0)),
      api_available = False,
      chat_completion = (\<lambda>prompt. Inl (Exception ''unavailable'')),
      generate_meta_summary = (\<lambda>as. Inr ''Meta''),
      today = ''January 01, 2026'',
      tts_generate_podcast = (\<lambda>content. Inr None),
      send_daily_podcast = (\<lambda>f s. Inl (Exception ''Telegram not configured'')),
      send_text_summary_sync = (\<lambda>s. Inr False),
      utcnow_start = 0, utcnow_end = 1\<rparr>"

text \<open>The same run with an extractor that returns no article at all.\<close>

definition no_extraction_env :: "article list \<Rightarrow> env" where
  "no_extraction_env fetched =
     (offline_env fetched)\<lparr>extract_content_batch := (\<lambda>as. Inr [])\<rparr>"

section \<open>The removal set of find_duplicates\<close>






lemma loser_cases:
  "loser A i j = (if content_length (A ! i) < content_length (A ! j) then i else j)"
  by (simp add: loser_def)

lemma loser_bound: "i < j \<Longrightarrow> j < n \<Longrightarrow> loser A i j < n"
  by (simp add: loser_def)

lemma snd_pair_step:
  "snd (pair_step A cs th i st j) =
     (if cs i j > th then insert (loser A i j) (snd st) else snd st)"
  by (simp add: pair_step_def loser_def content_length_def Let_def)

lemma snd_foldl_pair_step:
  "snd (foldl (pair_step A cs th i) st js) =
     snd st \<union> {loser A i j | j. j \<in> set js \<and> cs i j > th}"
  by (induction js arbitrary: st) (auto simp: snd_pair_step)

lemma snd_inner_loop:
  "snd (inner_loop A cs th st i) =
     snd st \<union> {loser A i j | j. i < j \<and> j < length A \<and> cs i j > th}"
  by (auto simp: inner_loop_def snd_foldl_pair_step)

lemma snd_foldl_inner_loop:
  "snd (foldl (inner_loop A cs th) st is) =
     snd st \<union> {loser A i j | i j. i \<in> set is \<and> i < j \<and> j < length A \<and> cs i j > th}"
proof (induction "is" arbitrary: st)
  case Nil
  then show ?case by simp
next
  case (Cons a "is")
  show ?case
    unfolding foldl_Cons Cons.IH snd_inner_loop by auto
qed

lemma snd_scan_pairs:
  "snd (scan_pairs A cs th) = {loser A i j | i j. i < j \<and> j < length A \<and> cs i j > th}"
proof -
  have "\<And>i j. i < j \<Longrightarrow> j < length A \<Longrightarrow> i \<in> set [0 ..< length A]" by simp
  then show ?thesis
    unfolding scan_pairs_def snd_foldl_inner_loop by fastforce
qed

text \<open>
  The removal set is the set of the losers of all pairs above the threshold, and it is
  empty when the scorer raises.
\<close>

lemma articles_to_remove_find:
  "articles_to_remove (find_duplicates scorer A th) =
     (case scorer (comparison_texts A) of
        Inr cs \<Rightarrow> {loser A i j | i j. i < j \<and> j < length A \<and> cs i j > th}
      | Inl e \<Rightarrow> {})"
proof (cases "length A < 2")
  case True
  then have "\<And>i j. i < j \<Longrightarrow> j < length A \<Longrightarrow> False" by linarith
  then have "\<And>cs. {loser A i j | i j. i < j \<and> j < length A \<and> cs i j > th} = {}" by blast
  with True show ?thesis
    by (simp add: find_duplicates_def split: sum.split)
next
  case False
  then show ?thesis
    by (auto simp: find_duplicates_def snd_scan_pairs[symmetric]
          split: sum.split py_exception.split prod.split)
qed

lemma removal_set_bounded:
  "articles_to_remove (find_duplicates scorer A th) \<subseteq> {0 ..< length A}"
  by (auto simp: articles_to_remove_find loser_bound split: sum.split)

lemma removal_set_finite: "finite (articles_to_remove (find_duplicates scorer A th))"
  using removal_set_bounded finite_atLeastLessThan by (rule finite_subset)

lemma n_to_remove_card:
  "n_articles_to_remove (find_stats (find_duplicates scorer A th)) =
     card (articles_to_remove (find_duplicates scorer A th))"
  by (simp add: find_duplicates_def split: sum.split py_exception.split prod.split)

text \<open>With no score above the threshold the two loops leave their state as it is.\<close>

lemma foldl_pair_step_idle:
  "(\<And>j. \<not> cs i j > th) \<Longrightarrow> foldl (pair_step A cs th i) st js = st"
  by (induction js arbitrary: st) (simp_all add: pair_step_def)

lemma scan_pairs_idle:
  assumes "\<And>i j. \<not> cs i j > th"
  shows "scan_pairs A cs th = ([], {})"
proof -
  have "foldl (inner_loop A cs th) st is = st" for st "is"
    by (induction "is" arbitrary: st) (simp_all add: inner_loop_def foldl_pair_step_idle assms)
  then show ?thesis by (simp add: scan_pairs_def)
qed

lemma find_duplicates_nothing_similar:
  assumes "scorer (comparison_texts A) = Inr cs" and "\<And>i j. \<not> cs i j > th"
  shows "duplicate_pairs (find_duplicates scorer A th) = [] \<and>
         articles_to_remove (find_duplicates scorer A th) = {}"
  using assms(1) scan_pairs_idle[OF assms(2), of A]
  by (simp add: find_duplicates_def)

lemma find_duplicates_scorer_raises:
  assumes "scorer (comparison_texts A) = Inl e"
  shows "duplicate_pairs (find_duplicates scorer A th) = [] \<and>
         articles_to_remove (find_duplicates scorer A th) = {}"
  using assms by (simp add: find_duplicates_def split: py_exception.split)

lemma first_longest_kept:
  assumes "first_longest A m"
  shows "m \<notin> articles_to_remove (find_duplicates scorer A th)"
proof
  assume "m \<in> articles_to_remove (find_duplicates scorer A th)"
  then obtain i j where ij: "i < j" "j < length A" and m: "m = loser A i j"
    by (auto simp: articles_to_remove_find split: sum.splits)
  from assms have le: "\<And>k. k < length A \<Longrightarrow> content_length (A ! k) \<le> content_length (A ! m)"
    and lt: "\<And>k. k < m \<Longrightarrow> content_length (A ! k) < content_length (A ! m)"
    by (auto simp: first_longest_def list_all_iff)
  show False
  proof (cases "content_length (A ! i) < content_length (A ! j)")
    case True
    with m have "m = i" by (simp add: loser_cases)
    with True le[of j] ij show False by simp
  next
    case False
    with m have "m = j" by (simp add: loser_cases)
    with False lt[of i] ij show False by simp
  qed
qed

lemma first_longest_exists:
  assumes "A \<noteq> []"
  shows "\<exists>m. first_longest A m"
proof -
  define M where "M = Max (content_length ` set A)"
  have fin: "finite (content_length ` set A)" and ne: "content_length ` set A \<noteq> {}"
    using assms by simp_all
  have "M \<in> content_length ` set A" unfolding M_def using fin ne by (rule Max_in)
  then obtain k0 where k0: "k0 < length A" "content_length (A ! k0) = M"
    by (auto simp: in_set_conv_nth)
  define m where "m = (LEAST k. k < length A \<and> content_length (A ! k) = M)"
  have m: "m < length A \<and> content_length (A ! m) = M"
    unfolding m_def using k0
    by (intro LeastI[of "\<lambda>k. k < length A \<and> content_length (A ! k) = M" k0]) simp
  have least: "\<And>k. k < m \<Longrightarrow> \<not> (k < length A \<and> content_length (A ! k) = M)"
    unfolding m_def by (rule not_less_Least)
  have le: "\<And>k. k < length A \<Longrightarrow> content_length (A ! k) \<le> M"
    unfolding M_def using fin by (intro Max_ge) simp_all
  have "first_longest A m"
    unfolding first_longest_def list_all_iff
  proof (intro conjI ballI)
    show "m < length A" using m by simp
  next
    fix k assume "k \<in> set [0 ..< length A]"
    then show "content_length (A ! k) \<le> content_length (A ! m)" using le m by simp
  next
    fix k assume "k \<in> set [0 ..< m]"
    then have km: "k < m" by simp
    with m have "k < length A" by simp
    with least[OF km] le[of k] m show "content_length (A ! k) < content_length (A ! m)"
      by (simp add: order.strict_iff_order)
  qed
  then show ?thesis ..
qed

section \<open>The two lists of remove_duplicates\<close>

lemma foldl_split_step:
  "foldl (split_step R) st ps =
     (fst st @ map snd (filter (\<lambda>ia. fst ia \<notin> R) ps),
      snd st @ map (\<lambda>ia. mark_removed (fst ia) (snd ia)) (filter (\<lambda>ia. fst ia \<in> R) ps))"
  by (induction ps arbitrary: st) (simp_all add: split_step_def)

lemma enumerate_nth: "enumerate 0 xs = map (\<lambda>i. (i, xs ! i)) [0 ..< length xs]"
  by (rule nth_equalityI) (simp_all add: nth_enumerate_eq)

lemma kept_of_enumerate:
  "map snd (filter (\<lambda>ia. fst ia \<notin> R) (enumerate 0 xs)) =
     map ((!) xs) (filter (\<lambda>i. i \<notin> R) [0 ..< length xs])"
  by (simp add: enumerate_nth filter_map comp_def)

lemma removed_of_enumerate:
  "map (\<lambda>ia. mark_removed (fst ia) (snd ia)) (filter (\<lambda>ia. fst ia \<in> R) (enumerate 0 xs)) =
     map (\<lambda>i. mark_removed i (xs ! i)) (filter (\<lambda>i. i \<in> R) [0 ..< length xs])"
  by (simp add: enumerate_nth filter_map comp_def)

lemma dedup_articles_eq:
  "dedup_articles (remove_duplicates scorer A th) =
     map ((!) A) (filter (\<lambda>i. i \<notin> articles_to_remove (find_duplicates scorer A th))
                    [0 ..< length A])"
  by (cases "A = []")
     (simp_all add: remove_duplicates_def Let_def foldl_split_step kept_of_enumerate)

lemma removed_articles_eq:
  "removed_articles (remove_duplicates scorer A th) =
     map (\<lambda>i. mark_removed i (A ! i))
       (filter (\<lambda>i. i \<in> articles_to_remove (find_duplicates scorer A th)) [0 ..< length A])"
  by (cases "A = []")
     (simp_all add: remove_duplicates_def Let_def foldl_split_step removed_of_enumerate)

lemma truncate_mark_removed: "article.truncate (mark_removed i a) = a"
  by (simp add: mark_removed_def article.truncate_def article.extend_def)

lemma original_index_mark_removed: "original_index (mark_removed i a) = i"
  by (simp add: mark_removed_def article.extend_def removed_article.fields_def)

lemma removal_reason_mark_removed: "removal_reason (mark_removed i a) = ''duplicate_content''"
  by (simp add: mark_removed_def article.extend_def removed_article.fields_def)

lemma dedup_counts:
  "original_count (deduplication_stats (remove_duplicates scorer A th)) = length A"
  "final_count (deduplication_stats (remove_duplicates scorer A th)) =
     length (dedup_articles (remove_duplicates scorer A th))"
  "dedup_duplicates_removed (deduplication_stats (remove_duplicates scorer A th)) =
     int (length A) - int (length (dedup_articles (remove_duplicates scorer A th)))"
  by (cases "A = []"; simp add: remove_duplicates_def Let_def split: prod.split)+

lemma length_kept_removed:
  "length (dedup_articles (remove_duplicates scorer A th)) +
   length (removed_articles (remove_duplicates scorer A th)) = length A"
  using sum_length_filter_compl
    [of "\<lambda>i. i \<notin> articles_to_remove (find_duplicates scorer A th)" "[0 ..< length A]"]
  by (simp add: dedup_articles_eq removed_articles_eq)

lemma kept_in_result:
  assumes "m < length A" "m \<notin> articles_to_remove (find_duplicates scorer A th)"
  shows "A ! m \<in> set (dedup_articles (remove_duplicates scorer A th))"
  using assms by (auto simp: dedup_articles_eq)

section \<open>The stages of a run\<close>

lemma fst_fetch_articles: "fst (fetch_articles env p) = batch_fetched env"
  by (simp add: batch_fetched_def fetch_articles_def Let_def split: sum.split py_exception.split)

lemma fst_extract_content:
  "fst (extract_content env A p) = fst (extract_content env A NewsProcessor)"
  by (simp add: extract_content_def Let_def split: sum.split py_exception.split)

lemma fst_deduplicate_articles:
  "fst (deduplicate_articles env A p) =
     remove_duplicates (tfidf_cosine env) A (DUPLICATE_THRESHOLD env)"
  by (simp add: deduplicate_articles_def Let_def)

lemma entered_fetch: "entered (snd (fetch_articles env p)) = entered p @ [Fetch]"
  by (simp add: fetch_articles_def Let_def enter_def add_error_def
        split: sum.split py_exception.split)

lemma entered_extract: "entered (snd (extract_content env A p)) = entered p @ [Extract]"
  by (simp add: extract_content_def Let_def enter_def add_error_def
        split: sum.split py_exception.split)

lemma entered_dedup: "entered (snd (deduplicate_articles env A p)) = entered p @ [Deduplicate]"
  by (simp add: deduplicate_articles_def Let_def enter_def)

lemma finish_with_error_result:
  "status (fst (finish_with_error env msg p)) = ''error''"
  "error (fst (finish_with_error env msg p)) = Some msg"
  "articles_processed (fst (finish_with_error env msg p)) = None"
  "entered (snd (finish_with_error env msg p)) = entered p"
  by (simp_all add: finish_with_error_def Let_def add_error_def split: option.split)

lemma finish_with_error_counters:
  "articles_fetched (statistics (fst (finish_with_error env msg p))) =
     articles_fetched (stats p)"
  "articles_with_content (statistics (fst (finish_with_error env msg p))) =
     articles_with_content (stats p)"
  "articles_after_deduplication (statistics (fst (finish_with_error env msg p))) =
     articles_after_deduplication (stats p)"
  "ai_summaries_generated (statistics (fst (finish_with_error env msg p))) =
     ai_summaries_generated (stats p)"
  by (simp_all add: finish_with_error_def Let_def add_error_def split: option.split)

lemma fetch_counters_empty:
  assumes "fst (fetch_articles env p) = []"
  shows "articles_fetched (stats (snd (fetch_articles env p))) =
           (case fetch_all_sources env of Inr a \<Rightarrow> 0 | Inl e \<Rightarrow> articles_fetched (stats p))"
    "articles_with_content (stats (snd (fetch_articles env p))) =
       articles_with_content (stats p)"
    "articles_after_deduplication (stats (snd (fetch_articles env p))) =
       articles_after_deduplication (stats p)"
    "ai_summaries_generated (stats (snd (fetch_articles env p))) =
       ai_summaries_generated (stats p)"
  using assms
  by (simp_all add: fetch_articles_def Let_def enter_def add_error_def
        split: sum.splits py_exception.splits)

lemma fetch_keeps:
  "start_time (stats (snd (fetch_articles env p))) = start_time (stats p)"
  "telegram_sent (stats (snd (fetch_articles env p))) = telegram_sent (stats p)"
  by (simp_all add: fetch_articles_def Let_def enter_def add_error_def
        split: sum.split py_exception.split)

lemma extract_keeps:
  "start_time (stats (snd (extract_content env A p))) = start_time (stats p)"
  "telegram_sent (stats (snd (extract_content env A p))) = telegram_sent (stats p)"
  by (simp_all add: extract_content_def Let_def enter_def add_error_def
        split: sum.split py_exception.split)

lemma dedup_keeps:
  "start_time (stats (snd (deduplicate_articles env A p))) = start_time (stats p)"
  "telegram_sent (stats (snd (deduplicate_articles env A p))) = telegram_sent (stats p)"
  by (simp_all add: deduplicate_articles_def Let_def enter_def)

lemma summaries_keeps:
  "start_time (stats (snd (generate_summaries env A p))) = start_time (stats p)"
  "telegram_sent (stats (snd (generate_summaries env A p))) = telegram_sent (stats p)"
  by (simp_all add: generate_summaries_def Let_def enter_def)

lemma meta_keeps:
  "start_time (stats (snd (create_meta_summary env A p))) = start_time (stats p)"
  "telegram_sent (stats (snd (create_meta_summary env A p))) = telegram_sent (stats p)"
  by (simp_all add: create_meta_summary_def Let_def enter_def add_error_def
        split: sum.split py_exception.split)

lemma podcast_keeps:
  "start_time (stats (snd (generate_podcast env m p))) = start_time (stats p)"
  "telegram_sent (stats (snd (generate_podcast env m p))) = telegram_sent (stats p)"
  by (simp_all add: generate_podcast_def Let_def enter_def add_error_def key_error_def
        split: sum.split py_exception.split option.split)

lemma telegram_keeps:
  "start_time (stats (snd (send_telegram env r m p))) = start_time (stats p)"
  by (simp add: send_telegram_def Let_def enter_def add_error_def
        split: sum.split py_exception.split)

lemma telegram_sent_flag:
  "telegram_sent (stats (snd (send_telegram env r m p))) =
     (telegram_sent (stats p) \<or> podcast_sent (fst (send_telegram env r m p))
        \<or> text_sent (fst (send_telegram env r m p)))"
  by (simp add: send_telegram_def Let_def enter_def add_error_def
        split: sum.split py_exception.split)

lemma finish_successfully_result:
  assumes "start_time (stats p) = Some t0"
  shows "\<exists>r q. finish_successfully env A m pr t p = Inr (r, q) \<and>
           status r = ''success'' \<and> error r = None \<and> telegram_result r = Some t \<and>
           articles_processed r = Some (length A) \<and>
           telegram_sent (statistics r) = telegram_sent (stats p)"
  using assms by (simp add: finish_successfully_def Let_def)

section \<open>The three ways a run ends\<close>

lemma run_empty_fetch:
  assumes "batch_fetched env = []"
  shows "NewsProcessor_run_daily_pipeline env p =
           finish_with_error env ''No articles fetched from RSS feeds''
             (snd (fetch_articles env
                (p\<lparr>stats := (stats p)\<lparr>start_time := Some (utcnow_start env)\<rparr>\<rparr>)))"
proof -
  let ?p = "p\<lparr>stats := (stats p)\<lparr>start_time := Some (utcnow_start env)\<rparr>\<rparr>"
  obtain a1 p1 where f: "fetch_articles env ?p = (a1, p1)" by fastforce
  have "a1 = []" using f assms fst_fetch_articles[of env ?p] by simp
  with f show ?thesis
    by (simp add: NewsProcessor_run_daily_pipeline_def Let_def)
qed

lemma run_empty_dedup:
  assumes "batch_fetched env \<noteq> []" "batch_deduplicated env = []"
  shows "NewsProcessor_run_daily_pipeline env p =
           finish_with_error env ''No articles remaining after deduplication''
             (snd (deduplicate_articles env (batch_extracted env)
                (snd (extract_content env (batch_fetched env)
                   (snd (fetch_articles env
                      (p\<lparr>stats := (stats p)\<lparr>start_time := Some (utcnow_start env)\<rparr>\<rparr>)))))))"
proof -
  let ?p = "p\<lparr>stats := (stats p)\<lparr>start_time := Some (utcnow_start env)\<rparr>\<rparr>"
  obtain a1 p1 where f: "fetch_articles env ?p = (a1, p1)" by fastforce
  obtain a2 p2 where x: "extract_content env a1 p1 = (a2, p2)" by fastforce
  obtain d p3 where d: "deduplicate_articles env a2 p2 = (d, p3)" by fastforce
  have a1: "a1 = batch_fetched env" using f fst_fetch_articles[of env ?p] by simp
  have a2: "a2 = batch_extracted env"
    using x fst_extract_content[of env a1 p1] by (simp add: batch_extracted_def a1)
  have dd: "dedup_articles d = batch_deduplicated env"
    using d fst_deduplicate_articles[of env a2 p2]
    by (simp add: batch_deduplicated_def a2 fst_deduplicate_articles)
  have ne: "a1 \<noteq> []" "dedup_articles d = []"
    using assms a1 dd by simp_all
  show ?thesis
    by (simp add: NewsProcessor_run_daily_pipeline_def Let_def f x d ne
          a1[symmetric] a2[symmetric])
qed

lemma run_success:
  assumes "batch_fetched env \<noteq> []" "batch_deduplicated env \<noteq> []"
  shows "\<exists>r q t. NewsProcessor_run_daily_pipeline env p = (r, q) \<and>
           status r = ''success'' \<and> error r = None \<and> telegram_result r = Some t \<and>
           telegram_sent (statistics r) =
             (telegram_sent (stats p) \<or> podcast_sent t \<or> text_sent t)"
proof -
  let ?p = "p\<lparr>stats := (stats p)\<lparr>start_time := Some (utcnow_start env)\<rparr>\<rparr>"
  obtain a1 p1 where f: "fetch_articles env ?p = (a1, p1)" by fastforce
  obtain a2 p2 where x: "extract_content env a1 p1 = (a2, p2)" by fastforce
  obtain d p3 where d: "deduplicate_articles env a2 p2 = (d, p3)" by fastforce
  obtain a4 p4 where s: "generate_summaries env (dedup_articles d) p3 = (a4, p4)" by fastforce
  obtain m p5 where c: "create_meta_summary env a4 p4 = (m, p5)" by fastforce
  obtain pr p6 where g: "generate_podcast env m p5 = (pr, p6)" by fastforce
  obtain t p7 where tg: "send_telegram env pr m p6 = (t, p7)" by fastforce
  have a1: "a1 = batch_fetched env" using f fst_fetch_articles[of env ?p] by simp
  have a2: "a2 = batch_extracted env"
    using x fst_extract_content[of env a1 p1] by (simp add: batch_extracted_def a1)
  have dd: "dedup_articles d = batch_deduplicated env"
    using d fst_deduplicate_articles[of env a2 p2]
    by (simp add: batch_deduplicated_def a2 fst_deduplicate_articles)
  have st: "start_time (stats p7) = Some (utcnow_start env)"
    using fetch_keeps(1)[of env ?p] extract_keeps(1)[of env a1 p1] dedup_keeps(1)[of env a2 p2]
      summaries_keeps(1)[of env "dedup_articles d" p3] meta_keeps(1)[of env a4 p4]
      podcast_keeps(1)[of env m p5] telegram_keeps[of env pr m p6]
    by (simp add: f x d s c g tg)
  have ts6: "telegram_sent (stats p6) = telegram_sent (stats p)"
    using fetch_keeps(2)[of env ?p] extract_keeps(2)[of env a1 p1] dedup_keeps(2)[of env a2 p2]
      summaries_keeps(2)[of env "dedup_articles d" p3] meta_keeps(2)[of env a4 p4]
      podcast_keeps(2)[of env m p5]
    by (simp add: f x d s c g)
  have ts7: "telegram_sent (stats p7) =
               (telegram_sent (stats p) \<or> podcast_sent t \<or> text_sent t)"
    using telegram_sent_flag[of env pr m p6] by (simp add: tg ts6)
  obtain r q where fin: "finish_successfully env a4 m pr t p7 = Inr (r, q)"
    and r: "status r = ''success''" "error r = None" "telegram_result r = Some t"
      "telegram_sent (statistics r) = telegram_sent (stats p7)"
    using finish_successfully_result[OF st, of env a4 m pr t] by blast
  have ne: "a1 \<noteq> []" "dedup_articles d \<noteq> []"
    using assms a1 dd by simp_all
  have "NewsProcessor_run_daily_pipeline env p = (r, q)"
    by (simp add: NewsProcessor_run_daily_pipeline_def Let_def f x d s c g tg fin ne)
  with r ts7 show ?thesis by simp
qed

section \<open>Claims about the deduplicator\<close>

text \<open>
  Claim C1. Whenever the scorer returns a matrix and the score of a pair \<open>i < j\<close> of the
  batch exceeds the threshold, the removal set of \<open>find_duplicates\<close> contains the article
  of the pair whose \<open>full_text\<close> is strictly shorter, and the higher index \<open>j\<close> when the
  two lengths are equal. Nothing else gets into the set: it is the set of these per-pair
  losers, so a tie never removes \<open>i\<close> on account of the pair \<open>(i, j)\<close>.
\<close>

theorem find_duplicates_removes_shorter:
  assumes "scorer (comparison_texts articles) = Inr cosine_sim"
    and "i < j" and "j < length articles"
    and "cosine_sim i j > similarity_threshold"
  shows "(if content_length (articles ! i) < content_length (articles ! j) then i else j)
           \<in> articles_to_remove (find_duplicates scorer articles similarity_threshold) \<and>
         articles_to_remove (find_duplicates scorer articles similarity_threshold) =
           {if content_length (articles ! a) < content_length (articles ! b) then a else b
            | a b. a < b \<and> b < length articles \<and> cosine_sim a b > similarity_threshold}"
proof -
  have eq: "articles_to_remove (find_duplicates scorer articles similarity_threshold) =
           {if content_length (articles ! a) < content_length (articles ! b) then a else b
            | a b. a < b \<and> b < length articles \<and> cosine_sim a b > similarity_threshold}"
    using assms(1) by (simp add: articles_to_remove_find loser_cases)
  have "(if content_length (articles ! i) < content_length (articles ! j) then i else j)
          \<in> {if content_length (articles ! a) < content_length (articles ! b) then a else b
             | a b. a < b \<and> b < length articles \<and> cosine_sim a b > similarity_threshold}"
    using assms(2-4) by blast
  with eq show ?thesis by simp
qed

theorem find_duplicates_removes_shorter_witness:
  "all_similar (comparison_texts three_articles) = Inr (\<lambda>i j. 9 / 10) \<and>
   (0::nat) < 1 \<and> (1::nat) < 2 \<and> 2 < length three_articles \<and> (85 / 100 :: real) < 9 / 10 \<and>
   0 \<in> articles_to_remove (find_duplicates all_similar three_articles (85 / 100)) \<and>
   2 \<in> articles_to_remove (find_duplicates all_similar three_articles (85 / 100)) \<and>
   1 \<notin> articles_to_remove (find_duplicates all_similar three_articles (85 / 100))"
proof -
  have kept: "1 \<notin> articles_to_remove (find_duplicates all_similar three_articles (85 / 100))"
    by code_simp
  from find_duplicates_removes_shorter
         [THEN conjunct1, of all_similar three_articles "\<lambda>i j. 9 / 10" 0 1 "85 / 100"]
       find_duplicates_removes_shorter
         [THEN conjunct1, of all_similar three_articles "\<lambda>i j. 9 / 10" 1 2 "85 / 100"]
       kept
  show ?thesis
    by (simp add: all_similar_def three_articles_def content_length_def dict_get_def
          with_text_def feed_item_def)
qed

text \<open>
  Claim C2. For a fixed batch (and so a fixed similarity matrix) and thresholds
  \<open>t1 \<le> t2\<close>, the removal set computed with \<open>t2\<close> is a subset of the one computed with
  \<open>t1\<close>, and the count of articles to remove reported with \<open>t2\<close> is no larger.
\<close>

theorem threshold_monotone:
  assumes "t1 \<le> t2"
  shows "articles_to_remove (find_duplicates scorer articles t2)
           \<subseteq> articles_to_remove (find_duplicates scorer articles t1) \<and>
         n_articles_to_remove (find_stats (find_duplicates scorer articles t2))
           \<le> n_articles_to_remove (find_stats (find_duplicates scorer articles t1))"
proof -
  have "articles_to_remove (find_duplicates scorer articles t2)
           \<subseteq> articles_to_remove (find_duplicates scorer articles t1)"
    using assms by (fastforce simp: articles_to_remove_find split: sum.split)
  then show ?thesis
    by (simp add: n_to_remove_card card_mono removal_set_finite)
qed

theorem threshold_monotone_witness:
  "(1 / 2 :: real) \<le> 19 / 20 \<and>
   articles_to_remove (find_duplicates all_similar three_articles (19 / 20))
     \<subseteq> articles_to_remove (find_duplicates all_similar three_articles (1 / 2)) \<and>
   n_articles_to_remove (find_stats (find_duplicates all_similar three_articles (19 / 20)))
     \<le> n_articles_to_remove (find_stats (find_duplicates all_similar three_articles (1 / 2)))"
  using threshold_monotone[of "1 / 2" "19 / 20" all_similar three_articles] by simp




text \<open>
  Claim C9. \<open>remove_duplicates\<close> never empties a non-empty batch: a batch that is not
  empty has a lowest-index article of maximal \<open>full_text\<close> length, no pair decision puts
  that index into the removal set, and the article is in the returned list.
\<close>

theorem remove_duplicates_keeps_first_longest:
  assumes "articles \<noteq> []"
  shows "dedup_articles (remove_duplicates scorer articles similarity_threshold) \<noteq> [] \<and>
         (\<exists>m. first_longest articles m) \<and>
         (\<forall>m. first_longest articles m \<longrightarrow>
            m \<notin> articles_to_remove (find_duplicates scorer articles similarity_threshold) \<and>
            articles ! m \<in> set (dedup_articles
                                   (remove_duplicates scorer articles similarity_threshold)))"
proof -
  obtain m where m: "first_longest articles m"
    using first_longest_exists[OF assms] ..
  have all: "\<And>k. first_longest articles k \<Longrightarrow>
     k \<notin> articles_to_remove (find_duplicates scorer articles similarity_threshold) \<and>
     articles ! k \<in> set (dedup_articles (remove_duplicates scorer articles similarity_threshold))"
    using first_longest_kept kept_in_result by (simp add: first_longest_def)
  from all[OF m]
  have "dedup_articles (remove_duplicates scorer articles similarity_threshold) \<noteq> []"
    by auto
  with m all show ?thesis by blast
qed

theorem remove_duplicates_keeps_first_longest_witness:
  "three_articles \<noteq> [] \<and> first_longest three_articles 1 \<and>
   dedup_articles (remove_duplicates all_similar three_articles (85 / 100)) \<noteq> [] \<and>
   1 \<notin> articles_to_remove (find_duplicates all_similar three_articles (85 / 100)) \<and>
   three_articles ! 1
     \<in> set (dedup_articles (remove_duplicates all_similar three_articles (85 / 100)))"
proof -
  have ne: "three_articles \<noteq> []" by (simp add: three_articles_def)
  have fl: "first_longest three_articles 1"
    by (simp add: first_longest_def three_articles_def content_length_def dict_get_def
          with_text_def feed_item_def upt_rec)
  from remove_duplicates_keeps_first_longest[OF ne, of all_similar "85 / 100"] ne fl
  show ?thesis by blast
qed

text \<open>
  Claim C10. \<open>remove_duplicates\<close> partitions its input along the removal set of
  \<open>find_duplicates\<close>: the returned articles are the input articles at the indices outside
  the set, in their order; the removed articles are the input articles at the indices in
  the set, each extended by the removal reason and its original index; and in the returned
  statistics the original count is the final count plus the number of duplicates removed,
  which is the length of the removed list.
\<close>

theorem remove_duplicates_partitions:
  fixes scorer articles similarity_threshold
  defines "r \<equiv> remove_duplicates scorer articles similarity_threshold"
    and "R \<equiv> articles_to_remove (find_duplicates scorer articles similarity_threshold)"
  shows "dedup_articles r =
           map ((!) articles) (filter (\<lambda>i. i \<notin> R) [0 ..< length articles]) \<and>
         map article.truncate (removed_articles r) =
           map ((!) articles) (filter (\<lambda>i. i \<in> R) [0 ..< length articles]) \<and>
         map original_index (removed_articles r) =
           filter (\<lambda>i. i \<in> R) [0 ..< length articles] \<and>
         map removal_reason (removed_articles r) =
           replicate (length (removed_articles r)) ''duplicate_content'' \<and>
         original_count (deduplication_stats r) = length articles \<and>
         final_count (deduplication_stats r) = length (dedup_articles r) \<and>
         dedup_duplicates_removed (deduplication_stats r) = int (length (removed_articles r)) \<and>
         int (original_count (deduplication_stats r)) =
           int (final_count (deduplication_stats r)) +
           dedup_duplicates_removed (deduplication_stats r)"
  unfolding r_def R_def
  using length_kept_removed[of scorer articles similarity_threshold]
  by (simp add: dedup_articles_eq[symmetric] dedup_counts removed_articles_eq comp_def
        truncate_mark_removed original_index_mark_removed removal_reason_mark_removed
        map_replicate_const)

theorem remove_duplicates_partitions_witness:
  "dedup_articles (remove_duplicates all_similar three_articles (85 / 100)) =
     [three_articles ! 1] \<and>
   map original_index (removed_articles (remove_duplicates all_similar three_articles (85 / 100)))
     = [0, 2] \<and>
   original_count (deduplication_stats (remove_duplicates all_similar three_articles (85 / 100)))
     = 3 \<and>
   final_count (deduplication_stats (remove_duplicates all_similar three_articles (85 / 100)))
     = 1 \<and>
   dedup_duplicates_removed
     (deduplication_stats (remove_duplicates all_similar three_articles (85 / 100))) = 2"
proof -
  have kept: "dedup_articles (remove_duplicates all_similar three_articles (85 / 100)) =
                [three_articles ! 1]"
    by code_simp
  have gone: "map original_index
                (removed_articles (remove_duplicates all_similar three_articles (85 / 100))) =
                [0, 2]"
    by code_simp
  have len: "length three_articles = 3" by (simp add: three_articles_def)
  have n: "length (removed_articles (remove_duplicates all_similar three_articles (85 / 100)))
             = 2"
    using arg_cong[OF gone, of length] by simp
  from remove_duplicates_partitions[of all_similar three_articles "85 / 100"] kept gone len n
  show ?thesis by simp
qed

section \<open>Claims about the pipeline\<close>

text \<open>
  Claim C3, as amended. When fetching yields no article (the feeds return an empty list,
  or fetching raises), a run of the entry point returns status \<open>error\<close> with the message
  \<open>No articles fetched from RSS feeds\<close>. The result has no \<open>articles_processed\<close>
  entry; its statistics count zero articles fetched, zero with content, zero after
  deduplication and zero AI summaries. The only stage entered is fetching.
\<close>

theorem empty_fetch_is_fatal:
  assumes "batch_fetched env = []"
  shows "status (run_daily_pipeline env) = ''error'' \<and>
         error (run_daily_pipeline env) = Some ''No articles fetched from RSS feeds'' \<and>
         articles_processed (run_daily_pipeline env) = None \<and>
         articles_fetched (statistics (run_daily_pipeline env)) = 0 \<and>
         articles_with_content (statistics (run_daily_pipeline env)) = 0 \<and>
         articles_after_deduplication (statistics (run_daily_pipeline env)) = 0 \<and>
         ai_summaries_generated (statistics (run_daily_pipeline env)) = 0 \<and>
         stages_entered env = [Fetch]"
proof -
  let ?p = "NewsProcessor\<lparr>stats := (stats NewsProcessor)\<lparr>start_time := Some (utcnow_start env)\<rparr>\<rparr>"
  have e: "fst (fetch_articles env ?p) = []"
    using assms by (simp add: fst_fetch_articles)
  have z: "articles_fetched (stats ?p) = 0" "articles_with_content (stats ?p) = 0"
    "articles_after_deduplication (stats ?p) = 0" "ai_summaries_generated (stats ?p) = 0"
    "entered ?p = []"
    by (simp_all add: NewsProcessor_def)
  note c = fetch_counters_empty[OF e]
  have c1: "articles_fetched (stats (snd (fetch_articles env ?p))) = 0"
    unfolding c using z by (simp split: sum.split)
  have c2: "articles_with_content (stats (snd (fetch_articles env ?p))) = 0"
    "articles_after_deduplication (stats (snd (fetch_articles env ?p))) = 0"
    "ai_summaries_generated (stats (snd (fetch_articles env ?p))) = 0"
    unfolding c using z by simp_all
  have t: "entered (snd (fetch_articles env ?p)) = [Fetch]"
    unfolding entered_fetch using z by simp
  show ?thesis
    unfolding run_daily_pipeline_def stages_entered_def run_empty_fetch[OF assms]
      finish_with_error_result finish_with_error_counters c1 c2 t
    by simp
qed

theorem empty_fetch_is_fatal_witness:
  "batch_fetched (offline_env []) = [] \<and>
   status (run_daily_pipeline (offline_env [])) = ''error'' \<and>
   error (run_daily_pipeline (offline_env [])) = Some ''No articles fetched from RSS feeds'' \<and>
   articles_fetched (statistics (run_daily_pipeline (offline_env []))) = 0 \<and>
   stages_entered (offline_env []) = [Fetch]"
proof -
  have h: "batch_fetched (offline_env []) = []" by code_simp
  from empty_fetch_is_fatal[OF h] h show ?thesis by simp
qed

text \<open>
  As stated, the claim promises a result with zero articles processed. The dictionary
  \<open>_finish_with_error\<close> builds has no such entry: on an empty fetch the count is absent,
  not 0.
\<close>

theorem empty_fetch_has_no_processed_count:
  "batch_fetched (offline_env []) = [] \<and>
   articles_processed (run_daily_pipeline (offline_env [])) = None \<and>
   articles_processed (run_daily_pipeline (offline_env [])) \<noteq> Some 0"
  by code_simp

text \<open>
  Claim C7. When articles were fetched and the batch is empty after the deduplication
  stage, the run ends at once with status \<open>error\<close> and the message
  \<open>No articles remaining after deduplication\<close>; fetching, extraction and deduplication
  are the only stages entered.
\<close>

theorem empty_dedup_is_fatal:
  assumes "batch_fetched env \<noteq> []" "batch_deduplicated env = []"
  shows "status (run_daily_pipeline env) = ''error'' \<and>
         error (run_daily_pipeline env) = Some ''No articles remaining after deduplication'' \<and>
         stages_entered env = [Fetch, Extract, Deduplicate]"
  unfolding run_daily_pipeline_def stages_entered_def run_empty_dedup[OF assms]
  by (simp add: finish_with_error_result entered_fetch entered_extract entered_dedup
        NewsProcessor_def)

theorem empty_dedup_is_fatal_witness:
  "batch_fetched (no_extraction_env [feed_item ''A'' ''B'']) \<noteq> [] \<and>
   batch_deduplicated (no_extraction_env [feed_item ''A'' ''B'']) = [] \<and>
   status (run_daily_pipeline (no_extraction_env [feed_item ''A'' ''B''])) = ''error'' \<and>
   error (run_daily_pipeline (no_extraction_env [feed_item ''A'' ''B''])) =
     Some ''No articles remaining after deduplication'' \<and>
   stages_entered (no_extraction_env [feed_item ''A'' ''B'']) = [Fetch, Extract, Deduplicate]"
proof -
  have h1: "batch_fetched (no_extraction_env [feed_item ''A'' ''B'']) \<noteq> []" by code_simp
  have h2: "batch_deduplicated (no_extraction_env [feed_item ''A'' ''B'']) = []" by code_simp
  from empty_dedup_is_fatal[OF h1 h2] h1 h2 show ?thesis by simp
qed

text \<open>
  Claim C6. A run that passes the two fatal checks (articles were fetched, and the batch
  after deduplication is not empty) returns status \<open>success\<close> with no run-level error,
  whatever the delivery does. The result carries the delivery result, and
  \<open>telegram_sent\<close> in the statistics is true exactly when that result reports the podcast
  or the text as sent: after a failed delivery it is still false and the status is still
  \<open>success\<close>.
\<close>

theorem delivery_failure_not_fatal:
  assumes "batch_fetched env \<noteq> []" "batch_deduplicated env \<noteq> []"
  shows "status (run_daily_pipeline env) = ''success'' \<and>
         error (run_daily_pipeline env) = None \<and>
         (\<exists>t. telegram_result (run_daily_pipeline env) = Some t \<and>
              telegram_sent (statistics (run_daily_pipeline env)) =
                (podcast_sent t \<or> text_sent t))"
proof -
  obtain r q t where "NewsProcessor_run_daily_pipeline env NewsProcessor = (r, q)"
    and "status r = ''success''" "error r = None" "telegram_result r = Some t"
    and "telegram_sent (statistics r) =
           (telegram_sent (stats NewsProcessor) \<or> podcast_sent t \<or> text_sent t)"
    using run_success[OF assms, of NewsProcessor] by blast
  then show ?thesis
    by (simp add: run_daily_pipeline_def NewsProcessor_def)
qed

theorem delivery_failure_not_fatal_witness:
  "batch_fetched (offline_env [feed_item ''A'' ''B'']) \<noteq> [] \<and>
   batch_deduplicated (offline_env [feed_item ''A'' ''B'']) \<noteq> [] \<and>
   telegram_result (run_daily_pipeline (offline_env [feed_item ''A'' ''B''])) =
     Some \<lparr>podcast_sent = False, text_sent = False, primary_method = ''failed'',
           telegram_error = None\<rparr> \<and>
   status (run_daily_pipeline (offline_env [feed_item ''A'' ''B''])) = ''success'' \<and>
   error (run_daily_pipeline (offline_env [feed_item ''A'' ''B''])) = None \<and>
   \<not> telegram_sent (statistics (run_daily_pipeline (offline_env [feed_item ''A'' ''B''])))"
proof -
  have h1: "batch_fetched (offline_env [feed_item ''A'' ''B'']) \<noteq> []" by code_simp
  have h2: "batch_deduplicated (offline_env [feed_item ''A'' ''B'']) \<noteq> []" by code_simp
  have t: "telegram_result (run_daily_pipeline (offline_env [feed_item ''A'' ''B''])) =
             Some \<lparr>podcast_sent = False, text_sent = False, primary_method = ''failed'',
                   telegram_error = None\<rparr>"
    by code_simp
  from delivery_failure_not_fatal[OF h1 h2] h1 h2 t show ?thesis by auto
qed

text \<open>
  Claim C8. The summarization stage should count as fallbacks exactly the articles whose
  AI summarization failed, that is the articles that took a fallback path. On a batch of
  two articles without full text, one with a feed summary and one without, no AI
  summarization is attempted, so none fails and both articles take the feed-summary
  fallback of \<open>process_article_summaries\<close>. The stage records one AI summary and logs
  one fallback summary: the feed summary carries no fallback marker and counts as an AI
  summary, the empty one counts as a fallback.
\<close>

theorem fallback_count_misses_feed_summaries:
  "ai_summaries_generated
     (stats (snd (generate_summaries (offline_env []) unextracted_articles NewsProcessor))) = 1 \<and>
   fallback_summaries_logged (offline_env []) unextracted_articles NewsProcessor = 1 \<and>
   length (filter (primary_failed (offline_env [])) unextracted_articles) = 0 \<and>
   length (filter (\<lambda>a. \<not> primary_succeeded (offline_env []) a) unextracted_articles) = 2"
  by code_simp

end
